theory Spec2Isabelle
  imports Complex_Main
begin

section \<open>The WhatsApp bridge (src/lib/whatsapp-bridge.ts) and the phone-number helper
  of the session service (handlers, \<open>cleanPhoneNumber\<close>)\<close>

subsection \<open>Values that cross the wire\<close>

text \<open>
  The bridge handles payloads typed \<open>Record<string, unknown>\<close> and casts their fields
  without checking them (\<open>data.qr as string\<close>). A field read is therefore modelled as a
  lookup that returns whatever JSON value is stored, \<open>None\<close> standing for JavaScript's
  \<open>undefined\<close>. JSON numbers pass through the bridge uninterpreted.
\<close>

datatype jsval =
    JNull
  | JBool bool
  | JNum rat
  | JStr string
  | JArr "jsval list"
  | JObj "(string \<times> jsval) list"

type_synonym payload = "string \<rightharpoonup> jsval"

text \<open>
  What a \<open>throw\<close> carries. \<open>Error\<close> is the plain class the bridge itself constructs
  (\<open>new Error(...)\<close>); the others are what the runtime raises (a rejected \<open>fetch\<close>, a body
  that is not JSON, a property read on \<open>undefined\<close> or \<open>null\<close>). \<open>UnhandledError\<close> is
  what \<open>EventEmitter.emit\<close> throws for the event name \<open>error\<close> when nobody listens to
  it (\<open>ERR_UNHANDLED_ERROR\<close>; its message renders the payload).
\<close>

datatype js_error =
    Error string
  | TypeError string
  | SyntaxError string
  | AbortError string
  | UnhandledError

subsection \<open>The instance registry and the bridge object\<close>

text \<open>Interface \<open>WAInstance\<close>. The field \<open>id\<close> is named \<open>inst_id\<close> here.\<close>

record WAInstance =
  inst_id :: string
  status :: "jsval option"
  qrCode :: "jsval option"
  qrCodeBase64 :: "jsval option"
  waNumber :: "jsval option"
  waName :: "jsval option"

text \<open>
  Interface \<open>WhatsmeowEvent\<close>: one message of the streaming channel, as \<open>JSON.parse\<close>
  returns it. Nothing checks the parsed value against the interface, so \<open>data\<close> may be
  missing or \<open>null\<close>: that is \<open>None\<close> here, and \<open>Some d\<close> is an object with the fields
  \<open>d\<close>.
\<close>

record WhatsmeowEvent =
  ev_type :: string
  ev_instanceId :: string
  ev_data :: "payload option"
  ev_timestamp :: rat

text \<open>
  Object identity matters for the sockets and timers: the tables of the bridge hold
  references to them, and a socket that left the table still exists and still has its
  handlers. Both live in a store indexed by allocation order. A socket records the
  \<open>instanceId\<close> its handlers captured and whether \<open>close()\<close> was called on it; a timer
  records the \<open>instanceId\<close> its callback captured and whether it is still pending.
\<close>

record socket =
  sock_instanceId :: string
  sock_close_called :: bool

datatype timer_state = Pending | Cleared | Fired

record timer =
  timer_instanceId :: string
  timer_state :: timer_state

text \<open>
  The name under which \<open>emit\<close> is called. \<open>eventMap[type]\<close> is a property read on an
  object literal, so for a type that names a member of \<open>Object.prototype\<close> it yields that
  inherited member rather than \<open>undefined\<close>.
\<close>

datatype event_key = EvName string | EvInherited string

text \<open>
  Class \<open>WhatsAppBridge\<close>: its three private tables, the store of sockets and timers
  they refer to, and what it inherits from \<open>EventEmitter\<close>: whether a listener for the
  name \<open>error\<close> is attached, and the sequence of events \<open>this.emit\<close> has published so
  far. Listeners are code outside the bridge and are taken to return.
\<close>

record bridge =
  wsConnections :: "string \<rightharpoonup> nat"
  instances :: "string \<rightharpoonup> WAInstance"
  reconnectTimers :: "string \<rightharpoonup> nat"
  sockets :: "socket list"
  timers :: "timer list"
  has_error_listener :: bool
  emitted :: "(event_key \<times> payload) list"

definition new_bridge :: bridge where
  "new_bridge = \<lparr> wsConnections = Map.empty, instances = Map.empty,
     reconnectTimers = Map.empty, sockets = [], timers = [], has_error_listener = False,
     emitted = [] \<rparr>"

subsection \<open>\<open>request\<close>: one call to the session service\<close>

text \<open>
  The response envelope \<open>{ success: boolean; error?: string; data?: T }\<close>, and the three
  ways the \<open>try\<close> block of \<open>request\<close> can go: \<open>fetch\<close> rejects, \<open>response.json()\<close>
  rejects, or an envelope is decoded. The HTTP status is never inspected.
\<close>

record 'a envelope =
  env_success :: bool
  env_error :: "string option"
  env_data :: "'a option"

datatype 'a fetch_outcome =
    FetchRejected js_error
  | JsonRejected js_error
  | Decoded "'a envelope"

text \<open>\<open>data.error || 'Request failed'\<close>: an absent or empty string is falsy.\<close>

definition or_default :: "string option \<Rightarrow> string \<Rightarrow> string" where
  "or_default v d = (case v of None \<Rightarrow> d | Some s \<Rightarrow> if s = [] then d else s)"

text \<open>
  The \<open>catch\<close> block logs and rethrows what it caught, whichever of the three it was.
  The result \<open>Inr None\<close> is a successful envelope without \<open>data\<close>.
\<close>

fun request :: "'a fetch_outcome \<Rightarrow> js_error + 'a option" where
  "request (FetchRejected e) = Inl e"
| "request (JsonRejected e) = Inl e"
| "request (Decoded env) =
     (if \<not> env_success env then Inl (Error (or_default (env_error env) ''Request failed''))
      else Inr (env_data env))"

subsection \<open>The stream connector\<close>

text \<open>
  \<open>ws.close()\<close> and \<open>clearTimeout(timer)\<close> act on the object a reference points to; neither
  throws.
\<close>

definition ws_close :: "nat \<Rightarrow> socket list \<Rightarrow> socket list" where
  "ws_close ws socks =
     (if ws < length socks then socks[ws := (socks ! ws)\<lparr>sock_close_called := True\<rparr>]
      else socks)"

definition clearTimeout :: "nat \<Rightarrow> timer list \<Rightarrow> timer list" where
  "clearTimeout t ts =
     (if t < length ts \<and> timer_state (ts ! t) = Pending
      then ts[t := (ts ! t)\<lparr>timer_state := Cleared\<rparr>] else ts)"

text \<open>\<open>disconnectWebSocket\<close>: close and forget the socket, clear and forget the timer.\<close>

definition disconnectWebSocket :: "bridge \<Rightarrow> string \<Rightarrow> bridge" where
  "disconnectWebSocket st instanceId =
     (let st1 = (case wsConnections st instanceId of
                   Some ws \<Rightarrow> st\<lparr> sockets := ws_close ws (sockets st),
                                  wsConnections := (wsConnections st)(instanceId := None) \<rparr>
                 | None \<Rightarrow> st)
      in (case reconnectTimers st1 instanceId of
            Some t \<Rightarrow> st1\<lparr> timers := clearTimeout t (timers st1),
                            reconnectTimers := (reconnectTimers st1)(instanceId := None) \<rparr>
          | None \<Rightarrow> st1))"

text \<open>
  \<open>connectWebSocket\<close>. The flag says whether \<open>new WebSocket(wsUrl)\<close> returned; when it
  throws, the \<open>catch\<close> logs and nothing is registered. The handlers installed on the new
  socket are the functions \<open>ws_onmessage\<close> and \<open>ws_onclose\<close> below (\<open>onopen\<close> and
  \<open>onerror\<close> only log).
\<close>

definition connectWebSocket :: "bridge \<Rightarrow> string \<Rightarrow> bool \<Rightarrow> bridge" where
  "connectWebSocket st instanceId ctor_ok =
     (let st1 = disconnectWebSocket st instanceId in
      if ctor_ok then
        st1\<lparr> sockets := sockets st1 @ [\<lparr> sock_instanceId = instanceId, sock_close_called = False \<rparr>],
             wsConnections := (wsConnections st1)(instanceId \<mapsto> length (sockets st1)) \<rparr>
      else st1)"

text \<open>
  The \<open>onclose\<close> handler of a socket opened for \<open>instanceId\<close>: it forgets whatever
  socket the table holds for that id and schedules the retry.
\<close>

definition ws_onclose :: "bridge \<Rightarrow> string \<Rightarrow> bridge" where
  "ws_onclose st instanceId =
     st\<lparr> wsConnections := (wsConnections st)(instanceId := None),
         timers := timers st @ [\<lparr> timer_instanceId = instanceId, timer_state = Pending \<rparr>],
         reconnectTimers := (reconnectTimers st)(instanceId \<mapsto> length (timers st)) \<rparr>"

text \<open>The callback given to \<open>setTimeout\<close> by the \<open>onclose\<close> handler.\<close>

definition reconnect_callback :: "bridge \<Rightarrow> string \<Rightarrow> bool \<Rightarrow> bridge" where
  "reconnect_callback st instanceId ctor_ok =
     (if instances st instanceId \<noteq> None then connectWebSocket st instanceId ctor_ok else st)"

text \<open>
  The runtime firing timer \<open>t\<close>, five seconds after it was set: a pending timer runs its
  callback once; a cleared or fired one does nothing.
\<close>

definition fire_timer :: "bridge \<Rightarrow> nat \<Rightarrow> bool \<Rightarrow> bridge" where
  "fire_timer st t ctor_ok =
     (if t < length (timers st) \<and> timer_state (timers st ! t) = Pending
      then reconnect_callback
             (st\<lparr> timers := (timers st)[t := (timers st ! t)\<lparr>timer_state := Fired\<rparr>] \<rparr>)
             (timer_instanceId (timers st ! t)) ctor_ok
      else st)"

subsection \<open>\<open>handleEvent\<close>\<close>

definition object_prototype_keys :: "string list" where
  "object_prototype_keys =
     [''constructor'', ''__defineGetter__'', ''__defineSetter__'', ''hasOwnProperty'',
      ''__lookupGetter__'', ''__lookupSetter__'', ''isPrototypeOf'', ''propertyIsEnumerable'',
      ''toString'', ''valueOf'', ''__proto__'', ''toLocaleString'']"

definition eventMap :: "string \<Rightarrow> event_key option" where
  "eventMap t =
     (if t = ''qr'' then Some (EvName ''qr'')
      else if t = ''ready'' then Some (EvName ''ready'')
      else if t = ''connected'' then Some (EvName ''authenticated'')
      else if t = ''disconnected'' then Some (EvName ''disconnected'')
      else if t = ''logged_out'' then Some (EvName ''auth_failure'')
      else if t = ''message'' then Some (EvName ''message'')
      else if t = ''message_ack'' then Some (EvName ''message_ack'')
      else if t \<in> set object_prototype_keys then Some (EvInherited t)
      else None)"

text \<open>\<open>eventMap[type] || type\<close>; every value the table can yield is truthy.\<close>

definition mappedEvent :: "string \<Rightarrow> event_key" where
  "mappedEvent t = (case eventMap t of Some k \<Rightarrow> k | None \<Rightarrow> EvName t)"

text \<open>
  \<open>{ instanceId, ...data }\<close>: the fields of \<open>data\<close> are spread last and win; spreading
  \<open>null\<close> or \<open>undefined\<close> adds nothing.
\<close>

definition spread :: "payload option \<Rightarrow> payload" where
  "spread data = (case data of None \<Rightarrow> Map.empty | Some d \<Rightarrow> d)"

definition emit_payload :: "string \<Rightarrow> payload option \<Rightarrow> payload" where
  "emit_payload instanceId data = [''instanceId'' \<mapsto> JStr instanceId] ++ spread data"

text \<open>
  \<open>this.emit(name, payload)\<close>: the event is handed to the listeners of \<open>name\<close>, except
  that the name \<open>error\<close> without a listener makes \<open>emit\<close> throw and publishes nothing.
\<close>

definition emit :: "bridge \<Rightarrow> event_key \<Rightarrow> payload \<Rightarrow> (js_error + unit) \<times> bridge" where
  "emit st name p =
     (if name = EvName ''error'' \<and> \<not> has_error_listener st then (Inl UnhandledError, st)
      else (Inr (), st\<lparr> emitted := emitted st @ [(name, p)] \<rparr>))"

text \<open>
  The body of \<open>if (instance) { ... }\<close>: the assignments one event makes to the record
  the registry holds for its \<open>instanceId\<close>, in source order. Reading \<open>data.qr\<close> or
  \<open>data.number\<close> when \<open>data\<close> is missing or \<open>null\<close> throws a \<open>TypeError\<close>; the
  assignments made before it stay, since the record is mutated in place.
\<close>

definition update_instance ::
  "WAInstance \<Rightarrow> string \<Rightarrow> payload option \<Rightarrow> WAInstance \<times> js_error option" where
  "update_instance instance type data =
     (if type = ''qr'' then
        (case data of
           None \<Rightarrow> (instance\<lparr> status := Some (JStr ''qr'') \<rparr>,
                     Some (TypeError ''Cannot read properties of undefined''))
         | Some d \<Rightarrow> (instance\<lparr> status := Some (JStr ''qr''), qrCode := d ''qr'',
                                 qrCodeBase64 := d ''qrBase64'' \<rparr>, None))
      else if type = ''ready'' then
        (case data of
           None \<Rightarrow> (instance\<lparr> status := Some (JStr ''connected''), qrCode := None,
                               qrCodeBase64 := None \<rparr>,
                     Some (TypeError ''Cannot read properties of undefined''))
         | Some d \<Rightarrow> (instance\<lparr> status := Some (JStr ''connected''), qrCode := None,
                                 qrCodeBase64 := None, waNumber := d ''number'',
                                 waName := d ''name'' \<rparr>, None))
      else if type = ''disconnected'' \<or> type = ''logged_out'' then
        (instance\<lparr> status := Some (JStr ''disconnected'') \<rparr>, None)
      else (instance, None))"

text \<open>
  \<open>handleEvent\<close> returns the bridge as the call leaves it, and \<open>Inl\<close> of the error when
  the call throws: from the update of the record, before anything is emitted, or from
  \<open>emit\<close>.
\<close>

definition handleEvent :: "bridge \<Rightarrow> WhatsmeowEvent \<Rightarrow> (js_error + unit) \<times> bridge" where
  "handleEvent st event =
     (let type = ev_type event; instanceId = ev_instanceId event; data = ev_data event in
      (case instances st instanceId of
         Some instance \<Rightarrow>
           (let st1 = st\<lparr> instances := (instances st)(instanceId \<mapsto>
                                fst (update_instance instance type data)) \<rparr>
            in (case snd (update_instance instance type data) of
                  Some e \<Rightarrow> (Inl e, st1)
                | None \<Rightarrow> emit st1 (mappedEvent type) (emit_payload instanceId data)))
       | None \<Rightarrow> emit st (mappedEvent type) (emit_payload instanceId data)))"

text \<open>
  The \<open>onmessage\<close> handler of any socket: \<open>None\<close> is a message that \<open>JSON.parse\<close>
  rejects. The handler's \<open>catch\<close> logs and drops whatever \<open>JSON.parse\<close> or
  \<open>handleEvent\<close> throws; what \<open>handleEvent\<close> did before throwing stays.
\<close>

definition ws_onmessage :: "bridge \<Rightarrow> WhatsmeowEvent option \<Rightarrow> bridge" where
  "ws_onmessage st parsed =
     (case parsed of None \<Rightarrow> st | Some eventData \<Rightarrow> snd (handleEvent st eventData))"

subsection \<open>Command methods that touch the registry\<close>

text \<open>
  Each of these awaits one \<open>request\<close> and continues only when it succeeded; the state
  they take is the one the bridge is in when the response arrives. Their requests are
  POSTs without a body to \<open>/instance/<id>/connect\<close>, \<open>/disconnect\<close> and \<open>/logout\<close>.
  Reading \<open>data.status\<close> when the envelope had no \<open>data\<close> is a \<open>TypeError\<close>.
\<close>

definition connect ::
  "bridge \<Rightarrow> string \<Rightarrow> payload fetch_outcome \<Rightarrow> bool \<Rightarrow> (js_error + WAInstance) \<times> bridge" where
  "connect st instanceId outcome ctor_ok =
     (case request outcome of
        Inl e \<Rightarrow> (Inl e, st)
      | Inr None \<Rightarrow> (Inl (TypeError ''Cannot read properties of undefined''), st)
      | Inr (Some data) \<Rightarrow>
          (let instance = \<lparr> inst_id = instanceId, status = data ''status'', qrCode = None,
                            qrCodeBase64 = data ''qrCode'', waNumber = data ''waNumber'',
                            waName = None \<rparr>
           in (Inr instance,
               connectWebSocket (st\<lparr> instances := (instances st)(instanceId \<mapsto> instance) \<rparr>)
                 instanceId ctor_ok)))"

definition disconnect ::
  "bridge \<Rightarrow> string \<Rightarrow> payload fetch_outcome \<Rightarrow> (js_error + unit) \<times> bridge" where
  "disconnect st instanceId outcome =
     (case request outcome of
        Inl e \<Rightarrow> (Inl e, st)
      | Inr _ \<Rightarrow>
          (Inr (),
           (case instances st instanceId of
              Some instance \<Rightarrow>
                st\<lparr> instances := (instances st)(instanceId \<mapsto>
                       instance\<lparr> status := Some (JStr ''disconnected'') \<rparr>) \<rparr>
            | None \<Rightarrow> st)))"

definition logout ::
  "bridge \<Rightarrow> string \<Rightarrow> payload fetch_outcome \<Rightarrow> (js_error + unit) \<times> bridge" where
  "logout st instanceId outcome =
     (case request outcome of
        Inl e \<Rightarrow> (Inl e, st)
      | Inr _ \<Rightarrow>
          (let st1 = disconnectWebSocket st instanceId
           in (Inr (), st1\<lparr> instances := (instances st1)(instanceId := None) \<rparr>)))"

definition deleteInstance ::
  "bridge \<Rightarrow> string \<Rightarrow> payload fetch_outcome \<Rightarrow> (js_error + unit) \<times> bridge" where
  "deleteInstance st instanceId outcome = logout st instanceId outcome"

subsection \<open>Lookups\<close>

definition getInstance :: "bridge \<Rightarrow> string \<Rightarrow> WAInstance option" where
  "getInstance st instanceId = instances st instanceId"

definition getClient :: "bridge \<Rightarrow> string \<Rightarrow> WAInstance option" where
  "getClient st instanceId = instances st instanceId"

text \<open>\<open>instance?.status ?? 'not_found'\<close>: the default replaces \<open>undefined\<close> and \<open>null\<close>.\<close>

definition getStatus :: "bridge \<Rightarrow> string \<Rightarrow> jsval" where
  "getStatus st instanceId =
     (case instances st instanceId of
        None \<Rightarrow> JStr ''not_found''
      | Some instance \<Rightarrow>
          (case status instance of
             None \<Rightarrow> JStr ''not_found''
           | Some JNull \<Rightarrow> JStr ''not_found''
           | Some v \<Rightarrow> v))"

record qr_result =
  qr :: "jsval option"
  qrBase64 :: "jsval option"

definition getQRCode :: "bridge \<Rightarrow> string \<Rightarrow> qr_result" where
  "getQRCode st instanceId =
     (case instances st instanceId of
        None \<Rightarrow> \<lparr> qr = None, qrBase64 = None \<rparr>
      | Some instance \<Rightarrow> \<lparr> qr = qrCode instance, qrBase64 = qrCodeBase64 instance \<rparr>)"

subsection \<open>Destination numbers\<close>

text \<open>
  A string is its sequence of bytes. The ten digits are single bytes in every encoding
  involved and no byte of a longer character lies in their range, so a scan by bytes keeps
  and drops exactly what the scan by UTF-16 units (TypeScript) or by runes (Go) does.
\<close>

definition is_digit :: "char \<Rightarrow> bool" where
  "is_digit c = (of_char CHR ''0'' \<le> (of_char c :: nat) \<and> (of_char c :: nat) \<le> of_char CHR ''9'')"

text \<open>\<open>to.replace(/\D/g, '')\<close>: every match of \<open>\D\<close>, left to right, is replaced by nothing.\<close>

fun replace_non_digits :: "string \<Rightarrow> string" where
  "replace_non_digits [] = []"
| "replace_non_digits (c # cs) =
     (if \<not> is_digit c then [] @ replace_non_digits cs else c # replace_non_digits cs)"

text \<open>\<open>cleanPhoneNumber\<close> of the session service: the loop appends the digits to \<open>result\<close>.\<close>

fun cleanPhoneNumber_loop :: "string \<Rightarrow> string \<Rightarrow> string" where
  "cleanPhoneNumber_loop result [] = result"
| "cleanPhoneNumber_loop result (c # cs) =
     cleanPhoneNumber_loop (if is_digit c then result @ [c] else result) cs"

definition cleanPhoneNumber :: "string \<Rightarrow> string" where
  "cleanPhoneNumber number = cleanPhoneNumber_loop [] number"

subsection \<open>Send methods\<close>

text \<open>
  A send method builds one request and awaits it. It is modelled as the pair of the
  request it issues and of what it returns for a given outcome of that request. The body
  is the object given to \<open>JSON.stringify\<close>, which leaves out fields that are
  \<open>undefined\<close>.
\<close>

record http_request =
  req_path :: string
  req_method :: string
  req_body :: "(string \<times> jsval) list"

definition optional_field :: "string \<Rightarrow> string option \<Rightarrow> (string \<times> jsval) list" where
  "optional_field k v = (case v of None \<Rightarrow> [] | Some s \<Rightarrow> [(k, JStr s)])"

record text_result =
  tr_id :: "jsval option"
  tr_from :: string
  tr_to :: string
  tr_body :: string
  tr_type :: string
  tr_timestamp :: rat
  tr_fromMe :: bool

record send_result =
  sr_id :: "jsval option"
  sr_to :: string
  sr_type :: string
  sr_fromMe :: bool

record media_options =
  caption :: "string option"
  filename :: "string option"

text \<open>\<open>now\<close> is the value of \<open>Date.now()\<close> when the response has arrived.\<close>

definition sendText ::
  "string \<Rightarrow> string \<Rightarrow> string \<Rightarrow> int \<Rightarrow> payload fetch_outcome
     \<Rightarrow> http_request \<times> (js_error + text_result)" where
  "sendText instanceId to text now outcome =
     (let cleanedNumber = replace_non_digits to in
      (\<lparr> req_path = ''/message/text'', req_method = ''POST'',
         req_body = [(''instanceId'', JStr instanceId), (''to'', JStr cleanedNumber),
                     (''text'', JStr text)] \<rparr>,
       (case request outcome of
          Inl e \<Rightarrow> Inl e
        | Inr None \<Rightarrow> Inl (TypeError ''Cannot read properties of undefined'')
        | Inr (Some data) \<Rightarrow>
            Inr \<lparr> tr_id = data ''messageId'', tr_from = [], tr_to = cleanedNumber,
                  tr_body = text, tr_type = ''text'', tr_timestamp = of_int now / 1000,
                  tr_fromMe = True \<rparr>)))"

definition sendMedia ::
  "string \<Rightarrow> string \<Rightarrow> string \<Rightarrow> media_options option \<Rightarrow> payload fetch_outcome
     \<Rightarrow> http_request \<times> (js_error + send_result)" where
  "sendMedia instanceId to mediaUrl options outcome =
     (let cleanedNumber = replace_non_digits to in
      (\<lparr> req_path = ''/message/media'', req_method = ''POST'',
         req_body = [(''instanceId'', JStr instanceId), (''to'', JStr cleanedNumber),
                     (''mediaUrl'', JStr mediaUrl)]
                    @ optional_field ''caption''
                        (case options of None \<Rightarrow> None | Some opts \<Rightarrow> caption opts) \<rparr>,
       (case request outcome of
          Inl e \<Rightarrow> Inl e
        | Inr None \<Rightarrow> Inl (TypeError ''Cannot read properties of undefined'')
        | Inr (Some data) \<Rightarrow>
            Inr \<lparr> sr_id = data ''messageId'', sr_to = cleanedNumber, sr_type = ''media'',
                  sr_fromMe = True \<rparr>)))"

definition sendMediaBase64 ::
  "string \<Rightarrow> string \<Rightarrow> string \<Rightarrow> string \<Rightarrow> media_options option \<Rightarrow> payload fetch_outcome
     \<Rightarrow> http_request \<times> (js_error + send_result)" where
  "sendMediaBase64 instanceId to base64 mimetype options outcome =
     sendMedia instanceId to (''data:'' @ mimetype @ '';base64,'' @ base64) options outcome"

definition sendLocation ::
  "string \<Rightarrow> string \<Rightarrow> rat \<Rightarrow> rat \<Rightarrow> string option \<Rightarrow> payload fetch_outcome
     \<Rightarrow> http_request \<times> (js_error + send_result)" where
  "sendLocation instanceId to latitude longitude description outcome =
     (let cleanedNumber = replace_non_digits to in
      (\<lparr> req_path = ''/message/location'', req_method = ''POST'',
         req_body = [(''instanceId'', JStr instanceId), (''to'', JStr cleanedNumber),
                     (''latitude'', JNum latitude), (''longitude'', JNum longitude)]
                    @ optional_field ''description'' description \<rparr>,
       (case request outcome of
          Inl e \<Rightarrow> Inl e
        | Inr None \<Rightarrow> Inl (TypeError ''Cannot read properties of undefined'')
        | Inr (Some data) \<Rightarrow>
            Inr \<lparr> sr_id = data ''messageId'', sr_to = cleanedNumber, sr_type = ''location'',
                  sr_fromMe = True \<rparr>)))"

definition sendPresence ::
  "string \<Rightarrow> string \<Rightarrow> string \<Rightarrow> payload fetch_outcome \<Rightarrow> http_request \<times> (js_error + unit)" where
  "sendPresence instanceId to presence outcome =
     (let cleanedNumber = replace_non_digits to in
      (\<lparr> req_path = ''/message/presence'', req_method = ''POST'',
         req_body = [(''instanceId'', JStr instanceId), (''to'', JStr cleanedNumber),
                     (''presence'', JStr presence)] \<rparr>,
       (case request outcome of Inl e \<Rightarrow> Inl e | Inr _ \<Rightarrow> Inr ())))"

text \<open>The destination a request carries: the \<open>to\<close> field of its body.\<close>

definition destination :: "http_request \<Rightarrow> jsval option" where
  "destination r = map_of (req_body r) ''to''"

subsection \<open>Methods without a counterpart in the session service\<close>

text \<open>
  The methods from \<open>sendContact\<close> to \<open>getChatMessages\<close> (all but \<open>sendPresence\<close>)
  ignore their arguments, so each is determined by its name. A method either throws or
  returns; \<open>Inr None\<close> is a method that returns nothing (\<open>undefined\<close>).
\<close>

datatype stub_method =
    sendContact | getLabels | addLabelToChat | removeLabelFromChat | loadInstanceSettings
  | setProfileName | setStatus | setProfilePicture
  | sendPoll | editMessage | reactToMessage | deleteMessage | downloadMedia
  | getContacts | getContactById | isRegisteredUser | blockContact | unblockContact
  | getBlockedContacts | getChats | getChatById | archiveChat | unarchiveChat
  | pinChat | unpinChat | muteChat | unmuteChat | deleteChat
  | searchMessages | getGroups | createGroup | getGroupInfo
  | addParticipants | removeParticipants | promoteParticipants | demoteParticipants
  | leaveGroup | getInviteCode | getProfilePicUrl | setGroupSubject | setGroupDescription
  | revokeInviteCode | joinGroupByInviteCode | getChatMessages

fun call_stub :: "stub_method \<Rightarrow> js_error + jsval option" where
  "call_stub sendContact = Inr (Some (JObj []))"
| "call_stub getLabels = Inr (Some (JArr []))"
| "call_stub addLabelToChat = Inr None"
| "call_stub removeLabelFromChat = Inr None"
| "call_stub loadInstanceSettings = Inr None"
| "call_stub setProfileName = Inr None"
| "call_stub setStatus = Inr None"
| "call_stub setProfilePicture = Inr None"
| "call_stub sendPoll = Inl (Error ''Not implemented'')"
| "call_stub editMessage = Inl (Error ''Not implemented'')"
| "call_stub reactToMessage = Inl (Error ''Not implemented'')"
| "call_stub deleteMessage = Inl (Error ''Not implemented'')"
| "call_stub downloadMedia = Inl (Error ''Not implemented'')"
| "call_stub getContacts = Inr (Some (JArr []))"
| "call_stub getContactById = Inl (Error ''Not implemented'')"
| "call_stub isRegisteredUser = Inr (Some (JBool True))"
| "call_stub blockContact = Inl (Error ''Not implemented'')"
| "call_stub unblockContact = Inl (Error ''Not implemented'')"
| "call_stub getBlockedContacts = Inr (Some (JArr []))"
| "call_stub getChats = Inr (Some (JArr []))"
| "call_stub getChatById = Inl (Error ''Not implemented'')"
| "call_stub archiveChat = Inl (Error ''Not implemented'')"
| "call_stub unarchiveChat = Inl (Error ''Not implemented'')"
| "call_stub pinChat = Inl (Error ''Not implemented'')"
| "call_stub unpinChat = Inl (Error ''Not implemented'')"
| "call_stub muteChat = Inl (Error ''Not implemented'')"
| "call_stub unmuteChat = Inl (Error ''Not implemented'')"
| "call_stub deleteChat = Inl (Error ''Not implemented'')"
| "call_stub searchMessages = Inr (Some (JArr []))"
| "call_stub getGroups = Inr (Some (JArr []))"
| "call_stub createGroup = Inl (Error ''Not implemented'')"
| "call_stub getGroupInfo = Inl (Error ''Not implemented'')"
| "call_stub addParticipants = Inl (Error ''Not implemented'')"
| "call_stub removeParticipants = Inl (Error ''Not implemented'')"
| "call_stub promoteParticipants = Inl (Error ''Not implemented'')"
| "call_stub demoteParticipants = Inl (Error ''Not implemented'')"
| "call_stub leaveGroup = Inl (Error ''Not implemented'')"
| "call_stub getInviteCode = Inl (Error ''Not implemented'')"
| "call_stub getProfilePicUrl = Inr (Some JNull)"
| "call_stub setGroupSubject = Inl (Error ''Not implemented'')"
| "call_stub setGroupDescription = Inl (Error ''Not implemented'')"
| "call_stub revokeInviteCode = Inl (Error ''Not implemented'')"
| "call_stub joinGroupByInviteCode = Inl (Error ''Not implemented'')"
| "call_stub getChatMessages = Inr (Some (JArr []))"

text \<open>The stubs that return instead of throwing, in source order.\<close>

definition returning_stubs :: "stub_method list" where
  "returning_stubs =
     [sendContact, getLabels, addLabelToChat, removeLabelFromChat, loadInstanceSettings,
      setProfileName, setStatus, setProfilePicture, getContacts, isRegisteredUser,
      getBlockedContacts, getChats, searchMessages, getGroups, getProfilePicUrl,
      getChatMessages]"

subsection \<open>Sample inputs and the states they lead to\<close>

text \<open>
  Answers of the session service: to \<open>connect\<close> while pairing is pending, to any command
  that succeeds, and a failure envelope with a given error string.
\<close>

definition connect_reply :: "payload fetch_outcome" where
  "connect_reply = Decoded \<lparr> env_success = True, env_error = None,
     env_data = Some [''status'' \<mapsto> JStr ''qr'', ''qrCode'' \<mapsto> JStr ''iVBORw0''] \<rparr>"

definition ok_reply :: "payload fetch_outcome" where
  "ok_reply = Decoded \<lparr> env_success = True, env_error = None,
     env_data = Some [''message'' \<mapsto> JStr ''ok''] \<rparr>"

definition failure_reply :: "string \<Rightarrow> payload fetch_outcome" where
  "failure_reply msg = Decoded \<lparr> env_success = False, env_error = Some msg, env_data = None \<rparr>"

definition raw_event :: "string \<Rightarrow> string \<Rightarrow> payload \<Rightarrow> WhatsmeowEvent" where
  "raw_event t i d =
     \<lparr> ev_type = t, ev_instanceId = i, ev_data = Some d, ev_timestamp = 1700000000 \<rparr>"

text \<open>\<open>connect('acct1')\<close> on a fresh bridge.\<close>

definition connected_once :: bridge where
  "connected_once = snd (connect new_bridge ''acct1'' connect_reply True)"

text \<open>Then the pairing code arrives on the stream.\<close>

definition awaiting_pairing :: bridge where
  "awaiting_pairing = ws_onmessage connected_once
     (Some (raw_event ''qr'' ''acct1'' [''qr'' \<mapsto> JStr ''2@AbC'', ''qrBase64'' \<mapsto> JStr ''iVBORw0'']))"

text \<open>
  \<open>connect('acct1')\<close> called a second time: socket 0 has been closed and replaced by
  socket 1, and its handlers have not run yet.
\<close>

definition connected_twice :: bridge where
  "connected_twice = snd (connect connected_once ''acct1'' connect_reply True)"

text \<open>The transport of socket 0 drops: its \<open>onclose\<close> runs and timer 0 is pending.\<close>

definition retry_pending :: bridge where
  "retry_pending = ws_onclose connected_once ''acct1''"

text \<open>
  \<open>logout('acct1')\<close> closes socket 0 and removes the record; the \<open>onclose\<close> of the
  socket runs afterwards and schedules timer 0.
\<close>

definition retry_after_logout :: bridge where
  "retry_after_logout = ws_onclose (snd (logout connected_once ''acct1'' ok_reply)) ''acct1''"

section \<open>Properties\<close>

lemmas samples = connect_reply_def ok_reply_def failure_reply_def raw_event_def connected_once_def
  awaiting_pairing_def connected_twice_def retry_pending_def retry_after_logout_def new_bridge_def

lemmas stream_defs = connect_def connectWebSocket_def disconnectWebSocket_def ws_close_def
  clearTimeout_def ws_onclose_def ws_onmessage_def handleEvent_def update_instance_def
  mappedEvent_def eventMap_def emit_payload_def spread_def emit_def Let_def

subsection \<open>Facts about the helpers\<close>

lemma replace_non_digits_filter: "replace_non_digits s = filter is_digit s"
  by (induction s) simp_all

lemma cleanPhoneNumber_loop_filter: "cleanPhoneNumber_loop acc s = acc @ filter is_digit s"
  by (induction s arbitrary: acc) simp_all

lemma disconnectWebSocket_tables:
  "wsConnections (disconnectWebSocket st i) = (wsConnections st)(i := None)"
  "reconnectTimers (disconnectWebSocket st i) = (reconnectTimers st)(i := None)"
  "instances (disconnectWebSocket st i) = instances st"
  "emitted (disconnectWebSocket st i) = emitted st"
  "length (sockets (disconnectWebSocket st i)) = length (sockets st)"
  "length (timers (disconnectWebSocket st i)) = length (timers st)"
  by (auto simp: disconnectWebSocket_def Let_def ws_close_def clearTimeout_def split: option.splits)

lemma disconnectWebSocket_closes:
  "wsConnections st i = Some ws \<and> ws < length (sockets st) \<longrightarrow>
     sock_close_called (sockets (disconnectWebSocket st i) ! ws)"
  by (auto simp: disconnectWebSocket_def Let_def ws_close_def split: option.splits)

lemma disconnectWebSocket_clears:
  "reconnectTimers st i = Some t \<and> t < length (timers st) \<longrightarrow>
     timer_state (timers (disconnectWebSocket st i) ! t) \<noteq> Pending"
  by (auto simp: disconnectWebSocket_def Let_def clearTimeout_def split: option.splits)

lemma mappedEvent_error: "mappedEvent t = EvName ''error'' \<longleftrightarrow> t = ''error''"
  by (auto simp: mappedEvent_def eventMap_def object_prototype_keys_def split: if_splits)

lemma disconnectWebSocket_idle:
  "wsConnections st i = None \<Longrightarrow> reconnectTimers st i = None \<Longrightarrow> disconnectWebSocket st i = st"
  by (simp add: disconnectWebSocket_def)

lemma disconnectWebSocket_twice:
  "disconnectWebSocket (disconnectWebSocket st i) i = disconnectWebSocket st i"
  by (rule disconnectWebSocket_idle) (simp_all add: disconnectWebSocket_tables)

lemma connectWebSocket_opens:
  "sockets (connectWebSocket st i True) =
     sockets (disconnectWebSocket st i) @ [\<lparr> sock_instanceId = i, sock_close_called = False \<rparr>]"
  "wsConnections (connectWebSocket st i True) i = Some (length (sockets st))"
  "reconnectTimers (connectWebSocket st i ok) i = None"
  by (simp_all add: connectWebSocket_def Let_def disconnectWebSocket_tables)

lemma logout_idle:
  assumes "wsConnections s i = None" "reconnectTimers s i = None" "instances s i = None"
  shows "snd (logout s i out) = s"
proof (cases "request out")
  case (Inl e)
  then show ?thesis by (simp add: logout_def)
next
  case (Inr d)
  have "(instances s)(i := None) = instances s"
    using assms(3) by (simp add: fun_upd_idem)
  with Inr assms show ?thesis
    by (simp add: logout_def Let_def disconnectWebSocket_idle)
qed

lemma logout_result:
  "fst (logout s i out) = (case request out of Inl e \<Rightarrow> Inl e | Inr d \<Rightarrow> Inr ())"
  by (simp add: logout_def Let_def split: sum.splits)

lemma logout_clears:
  "request out = Inr d \<Longrightarrow>
     wsConnections (snd (logout st i out)) i = None
     \<and> reconnectTimers (snd (logout st i out)) i = None
     \<and> instances (snd (logout st i out)) i = None"
  by (simp add: logout_def Let_def disconnectWebSocket_tables)

subsection \<open>Unsupported capabilities\<close>

text \<open>
  Against claim C1 as stated: \<open>getContacts\<close>, \<open>sendContact\<close>, \<open>getProfilePicUrl\<close>,
  \<open>isRegisteredUser\<close> and \<open>setProfileName\<close> return an empty list, an empty object,
  \<open>null\<close>, \<open>true\<close> and nothing at all; none of them fails.
\<close>

theorem stubs_return_counterexample:
  "call_stub getContacts = Inr (Some (JArr [])) \<and> call_stub sendContact = Inr (Some (JObj []))
   \<and> call_stub getProfilePicUrl = Inr (Some JNull)
   \<and> call_stub isRegisteredUser = Inr (Some (JBool True))
   \<and> call_stub setProfileName = Inr None"
  by simp

text \<open>
  Claim C1, amended: a method without a counterpart in the session service fails with
  the plain error \<open>Error('Not implemented')\<close> unless it is one of the sixteen listed in
  \<open>returning_stubs\<close>; those return without failing, with the fixed values shown (an empty
  object, an empty list, nothing, \<open>true\<close> or \<open>null\<close>).
\<close>

theorem stubs_throw_or_return:
  "(m \<in> set returning_stubs \<longrightarrow> (\<exists>v. call_stub m = Inr v))
   \<and> (m \<notin> set returning_stubs \<longrightarrow> call_stub m = Inl (Error ''Not implemented''))
   \<and> map call_stub returning_stubs =
       [Inr (Some (JObj [])), Inr (Some (JArr [])), Inr None, Inr None, Inr None, Inr None,
        Inr None, Inr None, Inr (Some (JArr [])), Inr (Some (JBool True)), Inr (Some (JArr [])),
        Inr (Some (JArr [])), Inr (Some (JArr [])), Inr (Some (JArr [])), Inr (Some JNull),
        Inr (Some (JArr []))]"
  by (cases m) (simp_all add: returning_stubs_def)

theorem stubs_throw_or_return_witness:
  "sendPoll \<notin> set returning_stubs \<and> call_stub sendPoll = Inl (Error ''Not implemented'')
   \<and> getGroups \<in> set returning_stubs \<and> (\<exists>v. call_stub getGroups = Inr v)"
proof -
  have a: "sendPoll \<notin> set returning_stubs" and b: "getGroups \<in> set returning_stubs"
    by (simp_all add: returning_stubs_def)
  from stubs_throw_or_return [of sendPoll] a
  have c: "call_stub sendPoll = Inl (Error ''Not implemented'')" by blast
  from stubs_throw_or_return [of getGroups] b
  have d: "\<exists>v. call_stub getGroups = Inr v" by blast
  from a b c d show ?thesis by blast
qed

subsection \<open>Events that end a session\<close>

text \<open>
  Against claim C2 as stated: while \<open>acct1\<close> awaits pairing, a \<open>logged_out\<close> event makes
  the handler emit one event, \<open>auth_failure\<close>, and no \<open>disconnected\<close> event.
\<close>

theorem logged_out_counterexample:
  "emitted (snd (handleEvent awaiting_pairing (raw_event ''logged_out'' ''acct1'' Map.empty)))
     = emitted awaiting_pairing @ [(EvName ''auth_failure'', [''instanceId'' \<mapsto> JStr ''acct1''])]"
  by (simp add: samples stream_defs)

text \<open>
  Claim C2, amended: for a raw event of type \<open>logged_out\<close> the handler sets the status of
  the instance's record to disconnected, when the registry has one, and emits exactly one
  event, \<open>auth_failure\<close>; for the raw type \<open>disconnected\<close> it sets the status the same
  way and emits \<open>disconnected\<close> only. The registry is otherwise unchanged, and the
  handler does not throw.
\<close>

theorem session_end_events:
  "ev_type event = ''logged_out'' \<or> ev_type event = ''disconnected'' \<Longrightarrow>
     fst (handleEvent st event) = Inr ()
     \<and> emitted (snd (handleEvent st event)) =
       emitted st @
         [(EvName (if ev_type event = ''logged_out'' then ''auth_failure'' else ''disconnected''),
           emit_payload (ev_instanceId event) (ev_data event))]
     \<and> instances (snd (handleEvent st event)) =
         (case instances st (ev_instanceId event) of
            None \<Rightarrow> instances st
          | Some instance \<Rightarrow>
              (instances st)(ev_instanceId event \<mapsto>
                 instance\<lparr> status := Some (JStr ''disconnected'') \<rparr>))"
  by (auto simp: handleEvent_def update_instance_def mappedEvent_def eventMap_def emit_def Let_def
      split: option.splits)

theorem session_end_events_witness:
  "emitted (snd (handleEvent awaiting_pairing (raw_event ''disconnected'' ''acct1'' Map.empty)))
     = emitted awaiting_pairing @ [(EvName ''disconnected'', emit_payload ''acct1'' (Some Map.empty))]
   \<and> getStatus (snd (handleEvent awaiting_pairing (raw_event ''disconnected'' ''acct1'' Map.empty)))
        ''acct1''
     = JStr ''disconnected''"
proof -
  let ?e = "raw_event ''disconnected'' ''acct1'' Map.empty"
  have h: "ev_type ?e = ''logged_out'' \<or> ev_type ?e = ''disconnected''"
    by (simp add: raw_event_def)
  have i: "instances awaiting_pairing ''acct1'' \<noteq> None"
    by (simp add: samples stream_defs)
  from session_end_events [OF h, of awaiting_pairing] i show ?thesis
    by (auto simp: raw_event_def getStatus_def)
qed

subsection \<open>Pairing codes\<close>

text \<open>
  Claim C3, evaluated where the code departs from it: \<open>acct1\<close> awaits pairing and holds a
  pairing code. After a streamed \<open>disconnected\<close> event, and likewise after a successful
  \<open>disconnect\<close> command, its status is disconnected and both pairing-code fields are
  still set. Only the \<open>ready\<close> branch of the handler clears them.
\<close>

theorem disconnected_keeps_pairing_code:
  "getStatus (ws_onmessage awaiting_pairing (Some (raw_event ''disconnected'' ''acct1'' Map.empty)))
      ''acct1'' = JStr ''disconnected''
   \<and> getQRCode (ws_onmessage awaiting_pairing (Some (raw_event ''disconnected'' ''acct1'' Map.empty)))
      ''acct1'' = \<lparr> qr = Some (JStr ''2@AbC''), qrBase64 = Some (JStr ''iVBORw0'') \<rparr>
   \<and> getStatus (snd (disconnect awaiting_pairing ''acct1'' ok_reply)) ''acct1'' = JStr ''disconnected''
   \<and> getQRCode (snd (disconnect awaiting_pairing ''acct1'' ok_reply)) ''acct1''
      = \<lparr> qr = Some (JStr ''2@AbC''), qrBase64 = Some (JStr ''iVBORw0'') \<rparr>"
  by (simp add: samples stream_defs getStatus_def getQRCode_def disconnect_def)

subsection \<open>Superseded connections\<close>

text \<open>
  Against claim C4 as stated: after \<open>connect('acct1')\<close> was called twice, socket 0 is
  closed and superseded by socket 1, the one the table holds. A message that still
  arrives on socket 0 is emitted all the same, and the close notification of socket 0
  removes the table entry of socket 1 and schedules a retry.
\<close>

theorem stale_connection_counterexample:
  "wsConnections connected_twice ''acct1'' = Some 1
   \<and> sockets connected_twice = [\<lparr> sock_instanceId = ''acct1'', sock_close_called = True \<rparr>,
                                 \<lparr> sock_instanceId = ''acct1'', sock_close_called = False \<rparr>]
   \<and> emitted (ws_onmessage connected_twice (Some (raw_event ''message'' ''acct1'' Map.empty)))
       = emitted connected_twice @ [(EvName ''message'', [''instanceId'' \<mapsto> JStr ''acct1''])]
   \<and> wsConnections (ws_onclose connected_twice ''acct1'') ''acct1'' = None
   \<and> reconnectTimers (ws_onclose connected_twice ''acct1'') ''acct1'' = Some 0"
  by (simp add: samples stream_defs)

text \<open>
  Claim C4, amended: a stream session carries no generation counter. An attempt to
  connect or reconnect supersedes the previous connection by tearing it down first: it
  calls \<open>close()\<close> on the socket the table holds for the id, clears the id's pending retry
  timer, and then registers the newly opened socket, so that afterwards the table holds
  exactly the new socket for the id and no retry timer for it.
\<close>

theorem reconnect_supersedes:
  "wsConnections (connectWebSocket st i True) i = Some (length (sockets st))
   \<and> sockets (connectWebSocket st i True) =
       (case wsConnections st i of None \<Rightarrow> sockets st | Some old \<Rightarrow> ws_close old (sockets st))
       @ [\<lparr> sock_instanceId = i, sock_close_called = False \<rparr>]
   \<and> reconnectTimers (connectWebSocket st i True) i = None
   \<and> timers (connectWebSocket st i True) =
       (case reconnectTimers st i of None \<Rightarrow> timers st | Some t \<Rightarrow> clearTimeout t (timers st))"
  by (auto simp: connectWebSocket_def disconnectWebSocket_def ws_close_def Let_def
      split: option.splits)

subsection \<open>What an emitted event carries\<close>

text \<open>
  Against claim C5 as stated: the event emitted for a streamed \<open>message\<close> has no
  timestamp at all; the handler reads no clock and drops the raw event's own timestamp.
\<close>

theorem emitted_timestamp_counterexample:
  "snd (last (emitted (snd (handleEvent awaiting_pairing
          (raw_event ''message'' ''acct1'' [''body'' \<mapsto> JStr ''hi'']))))) ''timestamp'' = None"
  by (simp add: samples stream_defs)

text \<open>
  Claim C5, amended: for every inbound raw event the handler publishes at most one
  event, and exactly one whenever it returns normally; it returns normally at least
  whenever the event has a \<open>data\<close> object and its raw type is not \<open>error\<close> (or a listener
  for \<open>error\<close> is attached), and a call that throws publishes nothing. The published
  payload holds every field of the raw \<open>data\<close> unchanged, a field named \<open>instanceId\<close>
  included; when \<open>data\<close> has no such field the payload's \<open>instanceId\<close> is the raw
  event's; and it holds nothing else. The handler assigns no timestamp: the payload has a
  \<open>timestamp\<close> field only where \<open>data\<close> has one, and then it is that value.
\<close>

theorem emitted_once_with_instanceId:
  "(fst (handleEvent st event) = Inr () \<longrightarrow>
      emitted (snd (handleEvent st event)) =
        emitted st @ [(mappedEvent (ev_type event),
                       emit_payload (ev_instanceId event) (ev_data event))])
   \<and> (fst (handleEvent st event) \<noteq> Inr () \<longrightarrow> emitted (snd (handleEvent st event)) = emitted st)
   \<and> ((ev_type event \<noteq> ''error'' \<or> has_error_listener st) \<and> ev_data event \<noteq> None \<longrightarrow>
        fst (handleEvent st event) = Inr ())
   \<and> (ev_data event = Some d \<and> d k = Some v \<longrightarrow>
        emit_payload (ev_instanceId event) (ev_data event) k = Some v)
   \<and> (spread (ev_data event) ''instanceId'' = None \<longrightarrow>
        emit_payload (ev_instanceId event) (ev_data event) ''instanceId''
          = Some (JStr (ev_instanceId event)))
   \<and> (k \<noteq> ''instanceId'' \<longrightarrow>
        emit_payload (ev_instanceId event) (ev_data event) k = spread (ev_data event) k)
   \<and> emit_payload (ev_instanceId event) (ev_data event) ''timestamp''
       = spread (ev_data event) ''timestamp''"
proof -
  have published: "fst (emit s n p) = Inr () \<longrightarrow> emitted (snd (emit s n p)) = emitted s @ [(n, p)]"
    and dropped: "fst (emit s n p) \<noteq> Inr () \<longrightarrow> emitted (snd (emit s n p)) = emitted s"
    and returns: "n \<noteq> EvName ''error'' \<or> has_error_listener s \<longrightarrow> fst (emit s n p) = Inr ()"
    for s n p
    by (simp_all add: emit_def)
  have one: "fst (handleEvent st event) = Inr () \<longrightarrow>
      emitted (snd (handleEvent st event)) =
        emitted st @ [(mappedEvent (ev_type event),
                       emit_payload (ev_instanceId event) (ev_data event))]"
    using published by (auto simp: handleEvent_def Let_def split: option.splits)
  have none: "fst (handleEvent st event) \<noteq> Inr () \<longrightarrow>
      emitted (snd (handleEvent st event)) = emitted st"
    using dropped by (auto simp: handleEvent_def Let_def split: option.splits)
  have normal: "(ev_type event \<noteq> ''error'' \<or> has_error_listener st) \<and> ev_data event \<noteq> None \<longrightarrow>
      fst (handleEvent st event) = Inr ()"
    using returns
    by (auto simp: handleEvent_def update_instance_def mappedEvent_error Let_def
        split: option.splits)
  have fields: "ev_data event = Some d \<and> d k = Some v \<longrightarrow>
      emit_payload (ev_instanceId event) (ev_data event) k = Some v"
    by (simp add: emit_payload_def spread_def map_add_def)
  have own_id: "spread (ev_data event) ''instanceId'' = None \<longrightarrow>
      emit_payload (ev_instanceId event) (ev_data event) ''instanceId''
        = Some (JStr (ev_instanceId event))"
    by (simp add: emit_payload_def map_add_def)
  have rest: "k \<noteq> ''instanceId'' \<longrightarrow>
      emit_payload (ev_instanceId event) (ev_data event) k = spread (ev_data event) k" for k
    by (simp add: emit_payload_def map_add_def split: option.splits)
  from one none normal fields own_id rest [of k] rest [of "''timestamp''"]
  show ?thesis by simp
qed

theorem emitted_once_with_instanceId_witness:
  "fst (handleEvent awaiting_pairing (raw_event ''message'' ''acct1'' [''body'' \<mapsto> JStr ''hi'']))
     = Inr ()
   \<and> length (emitted (snd (handleEvent awaiting_pairing
        (raw_event ''message'' ''acct1'' [''body'' \<mapsto> JStr ''hi'']))))
       = Suc (length (emitted awaiting_pairing))
   \<and> emit_payload ''acct1'' (Some [''body'' \<mapsto> JStr ''hi'']) ''instanceId'' = Some (JStr ''acct1'')
   \<and> emit_payload ''acct1'' (Some [''body'' \<mapsto> JStr ''hi'']) ''body'' = Some (JStr ''hi'')
   \<and> emit_payload ''acct1'' (Some [''instanceId'' \<mapsto> JStr ''acct2'']) ''instanceId''
       = Some (JStr ''acct2'')
   \<and> fst (handleEvent awaiting_pairing (raw_event ''error'' ''acct1'' Map.empty)) = Inl UnhandledError
   \<and> emitted (snd (handleEvent awaiting_pairing (raw_event ''error'' ''acct1'' Map.empty)))
       = emitted awaiting_pairing"
proof -
  let ?e = "raw_event ''message'' ''acct1'' [''body'' \<mapsto> JStr ''hi'']"
  let ?f = "raw_event ''message'' ''acct1'' [''instanceId'' \<mapsto> JStr ''acct2'']"
  let ?g = "raw_event ''error'' ''acct1'' Map.empty"
  have e: "(ev_type ?e \<noteq> ''error'' \<or> has_error_listener awaiting_pairing) \<and> ev_data ?e \<noteq> None"
    and e': "spread (ev_data ?e) ''instanceId'' = None"
    and e'': "ev_data ?e = Some [''body'' \<mapsto> JStr ''hi''] \<and> [''body'' \<mapsto> JStr ''hi''] ''body'' = Some (JStr ''hi'')"
    by (simp_all add: raw_event_def spread_def)
  from emitted_once_with_instanceId
         [of awaiting_pairing ?e "[''body'' \<mapsto> JStr ''hi'']" "''body''" "JStr ''hi''"] e e' e''
  have 1: "fst (handleEvent awaiting_pairing ?e) = Inr ()
      \<and> length (emitted (snd (handleEvent awaiting_pairing ?e))) = Suc (length (emitted awaiting_pairing))
      \<and> emit_payload (ev_instanceId ?e) (ev_data ?e) ''instanceId'' = Some (JStr (ev_instanceId ?e))
      \<and> emit_payload (ev_instanceId ?e) (ev_data ?e) ''body'' = Some (JStr ''hi'')"
    by simp
  have f: "ev_data ?f = Some [''instanceId'' \<mapsto> JStr ''acct2'']
      \<and> [''instanceId'' \<mapsto> JStr ''acct2''] ''instanceId'' = Some (JStr ''acct2'')"
    by (simp add: raw_event_def)
  from emitted_once_with_instanceId
         [of awaiting_pairing ?f "[''instanceId'' \<mapsto> JStr ''acct2'']" "''instanceId''" "JStr ''acct2''"] f
  have 2: "emit_payload (ev_instanceId ?f) (ev_data ?f) ''instanceId'' = Some (JStr ''acct2'')"
    by blast
  have g: "fst (handleEvent awaiting_pairing ?g) = Inl UnhandledError"
    by (simp add: samples stream_defs object_prototype_keys_def)
  then have g': "fst (handleEvent awaiting_pairing ?g) \<noteq> Inr ()" by simp
  from emitted_once_with_instanceId [of awaiting_pairing ?g] g'
  have 3: "emitted (snd (handleEvent awaiting_pairing ?g)) = emitted awaiting_pairing"
    by blast
  from 1 2 3 g show ?thesis by (simp add: raw_event_def)
qed

subsection \<open>Destinations\<close>

text \<open>
  Claim C6: whatever the destination string, the request that \<open>sendText\<close>, \<open>sendMedia\<close>
  (also through \<open>sendMediaBase64\<close>), \<open>sendLocation\<close> and \<open>sendPresence\<close> issue carries as
  \<open>to\<close> exactly the decimal digits of that string, in their order; the request is issued
  for every input, nothing else being checked. The session service's \<open>cleanPhoneNumber\<close>
  computes the same. For \<open>+1 (555) 123-4567\<close> the destination is \<open>15551234567\<close>.
\<close>

theorem destination_is_digits:
  "destination (fst (sendText instanceId to text now o1)) = Some (JStr (filter is_digit to))
   \<and> destination (fst (sendMedia instanceId to mediaUrl options o2))
       = Some (JStr (filter is_digit to))
   \<and> destination (fst (sendMediaBase64 instanceId to base64 mimetype options o2))
       = Some (JStr (filter is_digit to))
   \<and> destination (fst (sendLocation instanceId to latitude longitude description o2))
       = Some (JStr (filter is_digit to))
   \<and> destination (fst (sendPresence instanceId to presence o3)) = Some (JStr (filter is_digit to))
   \<and> cleanPhoneNumber to = filter is_digit to
   \<and> destination (fst (sendText ''acct1'' ''+1 (555) 123-4567'' ''hi'' now o1))
       = Some (JStr ''15551234567'')"
  by (simp add: destination_def sendText_def sendMedia_def sendMediaBase64_def sendLocation_def
      sendPresence_def cleanPhoneNumber_def replace_non_digits_filter cleanPhoneNumber_loop_filter
      Let_def is_digit_def)

subsection \<open>Failures of a command\<close>

text \<open>
  Against claim C7 as stated: a failure envelope whose error string is empty surfaces
  with the message \<open>Request failed\<close>, not with the envelope's string; and a rejected
  \<open>fetch\<close> surfaces as the runtime's own error, not as the kind of error an envelope
  failure produces.
\<close>

theorem request_failure_counterexample:
  "request (failure_reply []) = Inl (Error ''Request failed'')
   \<and> request (FetchRejected (TypeError ''fetch failed'') :: payload fetch_outcome)
       = Inl (TypeError ''fetch failed'')"
  by (simp add: failure_reply_def or_default_def)

text \<open>
  Claim C7, amended: when the envelope has \<open>success = false\<close> the call fails with a plain
  \<open>Error\<close> whose message is the envelope's error string if that is present and not
  empty, and \<open>Request failed\<close> otherwise; when the transport fails (\<open>fetch\<close> or the
  decoding of the body rejects) the call fails with that very error, rethrown unchanged.
  Either failure reaches the caller of every command method as it is, and \<open>connect\<close>,
  \<open>disconnect\<close> and \<open>logout\<close> then leave the bridge unchanged.
\<close>

theorem request_failure_surfaces:
  "(\<not> env_success env \<longrightarrow>
      request (Decoded env) =
        Inl (Error (case env_error env of
                      None \<Rightarrow> ''Request failed''
                    | Some msg \<Rightarrow> if msg = [] then ''Request failed'' else msg)))
   \<and> request (FetchRejected e) = Inl e \<and> request (JsonRejected e) = Inl e
   \<and> (request outcome = Inl e' \<longrightarrow>
        snd (sendText instanceId to body now outcome) = Inl e'
        \<and> snd (sendMedia instanceId to mediaUrl options outcome) = Inl e'
        \<and> snd (sendLocation instanceId to latitude longitude description outcome) = Inl e'
        \<and> snd (sendPresence instanceId to presence outcome) = Inl e'
        \<and> connect st instanceId outcome ctor_ok = (Inl e', st)
        \<and> disconnect st instanceId outcome = (Inl e', st)
        \<and> logout st instanceId outcome = (Inl e', st))"
  by (simp add: or_default_def sendText_def sendMedia_def sendLocation_def sendPresence_def
      connect_def disconnect_def logout_def Let_def)

theorem request_failure_surfaces_witness:
  "request (failure_reply ''rate limited'') = Inl (Error ''rate limited'')
   \<and> snd (sendText ''acct1'' ''+1 (555) 123-4567'' ''hi'' 0 (failure_reply ''rate limited''))
       = Inl (Error ''rate limited'')
   \<and> logout connected_once ''acct1'' (failure_reply ''rate limited'')
       = (Inl (Error ''rate limited''), connected_once)"
proof -
  let ?env = "\<lparr> env_success = False, env_error = Some ''rate limited'',
                env_data = (None :: payload option) \<rparr>"
  have h: "\<not> env_success ?env" by simp
  from request_failure_surfaces [of ?env] h
  have r: "request (failure_reply ''rate limited'') = Inl (Error ''rate limited'')"
    by (simp add: failure_reply_def)
  from request_failure_surfaces
         [where outcome = "failure_reply ''rate limited''" and e' = "Error ''rate limited''"
            and instanceId = "''acct1''" and to = "''+1 (555) 123-4567''" and body = "''hi''"
            and now = 0 and st = connected_once] r
  have "snd (sendText ''acct1'' ''+1 (555) 123-4567'' ''hi'' 0 (failure_reply ''rate limited''))
          = Inl (Error ''rate limited'')
      \<and> logout connected_once ''acct1'' (failure_reply ''rate limited'')
          = (Inl (Error ''rate limited''), connected_once)"
    by blast
  with r show ?thesis by blast
qed

subsection \<open>The retry and the registry\<close>

text \<open>
  Claim C8: when a retry timer fires, a connection is reopened only if the registry
  still holds the id the timer was set for. For an id that has been removed, firing
  opens no socket and leaves the connection table as it was; for a pending timer whose id
  is still registered, firing opens one new socket and registers it for that id.
\<close>

theorem retry_checks_registry:
  "(instances st (timer_instanceId (timers st ! t)) = None \<longrightarrow>
      sockets (fire_timer st t ctor_ok) = sockets st
      \<and> wsConnections (fire_timer st t ctor_ok) = wsConnections st)
   \<and> (t < length (timers st) \<and> timer_state (timers st ! t) = Pending
        \<and> instances st (timer_instanceId (timers st ! t)) \<noteq> None \<longrightarrow>
      length (sockets (fire_timer st t True)) = Suc (length (sockets st))
      \<and> wsConnections (fire_timer st t True) (timer_instanceId (timers st ! t))
          = Some (length (sockets st)))"
  by (auto simp: fire_timer_def reconnect_callback_def connectWebSocket_opens
      disconnectWebSocket_tables)

theorem retry_checks_registry_witness:
  "instances retry_after_logout (timer_instanceId (timers retry_after_logout ! 0)) = None
   \<and> timer_state (timers retry_after_logout ! 0) = Pending
   \<and> sockets (fire_timer retry_after_logout 0 True) = sockets retry_after_logout
   \<and> wsConnections (fire_timer retry_after_logout 0 True) = wsConnections retry_after_logout
   \<and> 0 < length (timers retry_pending) \<and> timer_state (timers retry_pending ! 0) = Pending
   \<and> instances retry_pending ''acct1'' \<noteq> None
   \<and> length (sockets (fire_timer retry_pending 0 True)) = Suc (length (sockets retry_pending))
   \<and> wsConnections (fire_timer retry_pending 0 True) ''acct1'' = Some 1"
proof -
  have a: "instances retry_after_logout (timer_instanceId (timers retry_after_logout ! 0)) = None"
    and a': "timer_state (timers retry_after_logout ! 0) = Pending"
    by (simp_all add: samples stream_defs logout_def)
  have b: "0 < length (timers retry_pending) \<and> timer_state (timers retry_pending ! 0) = Pending
      \<and> instances retry_pending (timer_instanceId (timers retry_pending ! 0)) \<noteq> None"
    and c: "timer_instanceId (timers retry_pending ! 0) = ''acct1''"
    and d: "length (sockets retry_pending) = 1"
    by (simp_all add: samples stream_defs)
  from retry_checks_registry [of retry_after_logout 0 True] a
  have e: "sockets (fire_timer retry_after_logout 0 True) = sockets retry_after_logout
      \<and> wsConnections (fire_timer retry_after_logout 0 True) = wsConnections retry_after_logout"
    by blast
  from retry_checks_registry [of retry_pending 0] b
  have f: "length (sockets (fire_timer retry_pending 0 True)) = Suc (length (sockets retry_pending))
      \<and> wsConnections (fire_timer retry_pending 0 True) (timer_instanceId (timers retry_pending ! 0))
          = Some (length (sockets retry_pending))"
    by blast
  from a a' b e f show ?thesis by (simp add: c d)
qed

subsection \<open>Teardown and logout, repeated\<close>

text \<open>
  Against claim C9 as stated: \<open>logout\<close> awaits its request before it touches the bridge
  and rethrows a failure of that request. A second \<open>logout('acct1')\<close> that the session
  service answers with a failure envelope does not complete without error.
\<close>

theorem second_logout_counterexample:
  "fst (logout (snd (logout connected_once ''acct1'' ok_reply)) ''acct1''
          (failure_reply ''instance not found''))
     = Inl (Error ''instance not found'')"
  by (simp add: logout_def failure_reply_def ok_reply_def or_default_def Let_def)

text \<open>
  Claim C9, amended: the teardown of an instance's stream is idempotent. When it
  returns, \<open>close()\<close> has been called on the socket the table held for the id, the timer
  the table held for the id is no longer pending, and the tables hold neither for the id;
  a second call in a row changes nothing, and teardown cannot fail. When a \<open>logout\<close>
  that succeeded returns, the same holds and the id has no registry record; a second
  \<open>logout\<close> in a row leaves exactly that state, whatever the session service answers, and
  it completes without error when its own request succeeds and otherwise fails with that
  request's error. This is the state in which the calls return: what the handlers of the
  closed socket do later is not part of it.
\<close>

theorem teardown_idempotent:
  "disconnectWebSocket (disconnectWebSocket st i) i = disconnectWebSocket st i
   \<and> wsConnections (disconnectWebSocket st i) i = None
   \<and> reconnectTimers (disconnectWebSocket st i) i = None
   \<and> (wsConnections st i = Some ws \<and> ws < length (sockets st) \<longrightarrow>
        sock_close_called (sockets (disconnectWebSocket st i) ! ws))
   \<and> (reconnectTimers st i = Some t \<and> t < length (timers st) \<longrightarrow>
        timer_state (timers (disconnectWebSocket st i) ! t) \<noteq> Pending)
   \<and> (request o1 = Inr d1 \<longrightarrow>
        snd (logout (snd (logout st i o1)) i o2) = snd (logout st i o1)
        \<and> wsConnections (snd (logout st i o1)) i = None
        \<and> reconnectTimers (snd (logout st i o1)) i = None
        \<and> instances (snd (logout st i o1)) i = None
        \<and> (wsConnections st i = Some ws \<and> ws < length (sockets st) \<longrightarrow>
             sock_close_called (sockets (snd (logout st i o1)) ! ws))
        \<and> (reconnectTimers st i = Some t \<and> t < length (timers st) \<longrightarrow>
             timer_state (timers (snd (logout st i o1)) ! t) \<noteq> Pending)
        \<and> fst (logout (snd (logout st i o1)) i o2) =
            (case request o2 of Inl e \<Rightarrow> Inl e | Inr d2 \<Rightarrow> Inr ()))"
proof -
  have closed: "wsConnections st i = Some ws \<and> ws < length (sockets st) \<longrightarrow>
      sock_close_called (sockets (disconnectWebSocket st i) ! ws)"
    by (rule disconnectWebSocket_closes)
  have cleared: "reconnectTimers st i = Some t \<and> t < length (timers st) \<longrightarrow>
      timer_state (timers (disconnectWebSocket st i) ! t) \<noteq> Pending"
    by (rule disconnectWebSocket_clears)
  have store: "request o1 = Inr d1 \<longrightarrow>
      sockets (snd (logout st i o1)) = sockets (disconnectWebSocket st i)
      \<and> timers (snd (logout st i o1)) = timers (disconnectWebSocket st i)"
    by (simp add: logout_def Let_def)
  from closed cleared store
    logout_clears [of o1 d1 st i] logout_idle [of "snd (logout st i o1)" i o2]
  show ?thesis
    by (simp add: disconnectWebSocket_twice disconnectWebSocket_tables logout_result)
qed

theorem teardown_idempotent_witness:
  "request ok_reply = Inr (Some [''message'' \<mapsto> JStr ''ok''])
   \<and> wsConnections connected_once ''acct1'' = Some 0 \<and> 0 < length (sockets connected_once)
   \<and> logout (snd (logout connected_once ''acct1'' ok_reply)) ''acct1'' ok_reply
       = (Inr (), snd (logout connected_once ''acct1'' ok_reply))
   \<and> sock_close_called (sockets (snd (logout connected_once ''acct1'' ok_reply)) ! 0)
   \<and> getStatus (snd (logout connected_once ''acct1'' ok_reply)) ''acct1'' = JStr ''not_found''
   \<and> reconnectTimers retry_pending ''acct1'' = Some 0 \<and> 0 < length (timers retry_pending)
   \<and> timer_state (timers (disconnectWebSocket retry_pending ''acct1'') ! 0) \<noteq> Pending"
proof -
  let ?s = "snd (logout connected_once ''acct1'' ok_reply)"
  have h: "request ok_reply = Inr (Some [''message'' \<mapsto> JStr ''ok''])"
    by (simp add: ok_reply_def)
  have w: "wsConnections connected_once ''acct1'' = Some 0 \<and> 0 < length (sockets connected_once)"
    and t: "reconnectTimers retry_pending ''acct1'' = Some 0 \<and> 0 < length (timers retry_pending)"
    by (simp_all add: samples stream_defs)
  from teardown_idempotent [of connected_once "''acct1''" 0 _ ok_reply _ ok_reply] h w
  have 1: "snd (logout ?s ''acct1'' ok_reply) = ?s \<and> instances ?s ''acct1'' = None
      \<and> sock_close_called (sockets ?s ! 0)
      \<and> fst (logout ?s ''acct1'' ok_reply) = Inr ()"
    by simp
  from teardown_idempotent [of retry_pending "''acct1''" _ 0] t
  have 2: "timer_state (timers (disconnectWebSocket retry_pending ''acct1'') ! 0) \<noteq> Pending"
    by blast
  from 1 2 h w t show ?thesis by (simp add: getStatus_def prod_eq_iff)
qed

subsection \<open>Lookups of an unknown id\<close>

text \<open>
  Claim C10: for an id the registry does not hold, \<open>getStatus\<close> returns \<open>not_found\<close>,
  \<open>getInstance\<close> and \<open>getClient\<close> return \<open>undefined\<close>, and \<open>getQRCode\<close> returns a record
  with both fields absent. The four lookups are total functions of the registry: none has
  a failing outcome.
\<close>

theorem unknown_id_lookups:
  "instances st instanceId = None \<Longrightarrow>
     getStatus st instanceId = JStr ''not_found'' \<and> getInstance st instanceId = None
     \<and> getClient st instanceId = None
     \<and> getQRCode st instanceId = \<lparr> qr = None, qrBase64 = None \<rparr>"
  by (simp add: getStatus_def getInstance_def getClient_def getQRCode_def)

theorem unknown_id_lookups_witness:
  "instances new_bridge ''acct1'' = None \<and> getStatus new_bridge ''acct1'' = JStr ''not_found''
   \<and> getInstance new_bridge ''acct1'' = None \<and> getClient new_bridge ''acct1'' = None
   \<and> getQRCode new_bridge ''acct1'' = \<lparr> qr = None, qrBase64 = None \<rparr>"
proof -
  have h: "instances new_bridge ''acct1'' = None" by (simp add: new_bridge_def)
  from unknown_id_lookups [OF h] h show ?thesis by simp
qed

end
